theory Spec2Isabelle
  imports Complex_Main
begin

section \<open>Data model\<close>

text \<open>
  The ORM class \<^verbatim>\<open>Account\<close> of \<^verbatim>\<open>app/models/account_model.py\<close>. The primary key is
  \<open>None\<close> on an object that has not been flushed yet. \<^verbatim>\<open>Decimal\<close> amounts are exact
  rationals; strings are UTF-8 byte strings; the status is the plain string the service
  assigns.
\<close>

record account =
  id_pk :: "int option"
  user_id :: int
  account_type :: string
  balance :: rat
  status :: string
  nickname :: "string option"

text \<open>The request schemas of \<^verbatim>\<open>app/schemas/account_schema.py\<close>.\<close>

record AccountCreate =
  create_account_type :: string
  create_nickname :: "string option"
  initial_deposit :: rat

record AccountUpdate =
  update_nickname :: "string option"
  update_status :: "string option"

definition AccountType :: "string list" where
  "AccountType = [''checking'', ''savings'']"

definition AccountStatus :: "string list" where
  "AccountStatus = [''active'', ''frozen'', ''closed'']"

text \<open>
  The constraints \<^verbatim>\<open>AccountCreate\<close> declares: \<^verbatim>\<open>account_type: AccountType\<close> and
  \<^verbatim>\<open>initial_deposit: Decimal = Field(..., gt=0)\<close>.
\<close>

definition AccountCreate_valid :: "AccountCreate \<Rightarrow> bool" where
  "AccountCreate_valid data \<longleftrightarrow>
     create_account_type data \<in> set AccountType \<and> 0 < initial_deposit data"

text \<open>
  A field of a JSON request body is left out, \<^verbatim>\<open>null\<close>, or carries a value. In
  \<^verbatim>\<open>AccountUpdate\<close>, \<^verbatim>\<open>nickname: Optional[str] = Field(None, ...)\<close> has the default \<^verbatim>\<open>None\<close>, so
  a nickname left out and a \<^verbatim>\<open>null\<close> both arrive as \<^verbatim>\<open>None\<close>; \<^verbatim>\<open>status: Optional[AccountStatus]\<close>
  has no default, so the schema (pydantic 2, as \<^verbatim>\<open>app/config.py\<close> imports it) refuses a body
  without the field, takes \<^verbatim>\<open>null\<close> as \<^verbatim>\<open>None\<close> and refuses a value outside
  \<^verbatim>\<open>AccountStatus\<close>. A refused body is the result \<open>None\<close>.
\<close>

datatype 'a field = Omitted | Null | Given 'a

record AccountUpdate_body =
  body_nickname :: "string field"
  body_status :: "string field"

fun optional :: "'a field \<Rightarrow> 'a option" where
  "optional Omitted = None"
| "optional Null = None"
| "optional (Given v) = Some v"

definition AccountUpdate_parse :: "AccountUpdate_body \<Rightarrow> AccountUpdate option" where
  "AccountUpdate_parse body =
     (case body_status body of
        Omitted \<Rightarrow> None
      | Null \<Rightarrow> Some \<lparr>update_nickname = optional (body_nickname body), update_status = None\<rparr>
      | Given st \<Rightarrow>
          if st \<in> set AccountStatus
          then Some \<lparr>update_nickname = optional (body_nickname body), update_status = Some st\<rparr>
          else None)"

section \<open>Errors\<close>

text \<open>
  The two \<^verbatim>\<open>ValueError\<close> messages of \<^verbatim>\<open>create_account\<close>; the second one interpolates the
  account type and the minimum.
\<close>

datatype value_error = Invalid_account_type | Minimum_deposit string rat

text \<open>
  What the store can raise: \<^verbatim>\<open>sqlalchemy.exc.IntegrityError\<close>, \<^verbatim>\<open>DataError\<close> for a value a
  column cannot hold, or any other exception (\<open>OperationalError\<close> stands for all of them).
  \<open>InvalidRequestError\<close> is what a refresh raises for an object that has no row.
\<close>

datatype db_error = IntegrityError | DataError | OperationalError | InvalidRequestError

text \<open>
  The store's own answer to a request that writes, an argument of the service functions:
  \<open>None\<close> when the store raises nothing, \<open>Some (At_commit e)\<close> when \<^verbatim>\<open>db.commit()\<close> raises \<open>e\<close>,
  \<open>Some (At_refresh e)\<close> when the commit goes through and the \<^verbatim>\<open>db.refresh(...)\<close> after it
  raises \<open>e\<close>.
\<close>

datatype failure = At_commit db_error | At_refresh db_error

fun commit_raises :: "failure option \<Rightarrow> db_error option" where
  "commit_raises (Some (At_commit e)) = Some e"
| "commit_raises (Some (At_refresh e)) = None"
| "commit_raises None = None"

fun refresh_raises :: "failure option \<Rightarrow> db_error option" where
  "refresh_raises (Some (At_refresh e)) = Some e"
| "refresh_raises (Some (At_commit e)) = None"
| "refresh_raises None = None"

datatype error = ValueError value_error | HTTPException nat string | DBError db_error

section \<open>The session\<close>

text \<open>
  The SQLAlchemy session the service receives: the committed rows of table \<^verbatim>\<open>accounts\<close>,
  the objects added and not flushed yet, the loaded objects whose attributes were assigned
  and not flushed yet, and what happened on the session so far, oldest first: the calls the
  service made, and the rollback a commit performs itself when its flush is refused.
\<close>

datatype db_call = Add | Commit | Refresh | Rollback | Query

record session =
  rows :: "account list"
  new :: "account list"
  dirty :: "account list"
  calls :: "db_call list"

text \<open>\<^verbatim>\<open>get_db\<close> opens one session per request.\<close>

definition SessionLocal :: "account list \<Rightarrow> session" where
  "SessionLocal rs = \<lparr>rows = rs, new = [], dirty = [], calls = []\<rparr>"

text \<open>The integer primary key is assigned by the store on insert, above every key in use.\<close>

primrec max_id :: "account list \<Rightarrow> int" where
  "max_id [] = 0"
| "max_id (r # rs) = (case id_pk r of None \<Rightarrow> max_id rs | Some i \<Rightarrow> max i (max_id rs))"

definition next_id :: "account list \<Rightarrow> int" where
  "next_id rs = max_id rs + 1"

text \<open>
  The column \<^verbatim>\<open>balance = Column(Numeric(precision=12, scale=2))\<close> on the configured
  PostgreSQL store: a value is rounded to two decimals, ties away from zero, and refused when
  the rounded value needs more than ten digits before the point.
\<close>

definition quantize :: "rat \<Rightarrow> rat" where
  "quantize x =
     (if 0 \<le> x then of_int \<lfloor>x * 100 + 1 / 2\<rfloor> / 100
      else - (of_int \<lfloor>- x * 100 + 1 / 2\<rfloor> / 100))"

definition storable :: "account \<Rightarrow> bool" where
  "storable a \<longleftrightarrow> \<bar>quantize (balance a)\<bar> < 10 ^ 10"

definition insert_row :: "account \<Rightarrow> account list \<Rightarrow> account list" where
  "insert_row a rs = rs @ [a\<lparr>id_pk := Some (next_id rs), balance := quantize (balance a)\<rparr>]"

text \<open>\<^verbatim>\<open>UPDATE accounts SET ... WHERE id = ...\<close> for a loaded object.\<close>

definition update_row :: "account \<Rightarrow> account list \<Rightarrow> account list" where
  "update_row a rs = map (\<lambda>r. if id_pk r = id_pk a then a else r) rs"

definition flush :: "session \<Rightarrow> account list" where
  "flush db = fold insert_row (new db) (fold update_row (dirty db) (rows db))"

definition add :: "account \<Rightarrow> session \<Rightarrow> session" where
  "add a db = db\<lparr>new := new db @ [a], calls := calls db @ [Add]\<rparr>"

text \<open>An attribute assignment on a loaded object: the session holds its new state.\<close>

definition assign :: "account \<Rightarrow> session \<Rightarrow> session" where
  "assign a db = db\<lparr>dirty := a # filter (\<lambda>d. id_pk d \<noteq> id_pk a) (dirty db)\<rparr>"

text \<open>
  \<^verbatim>\<open>db.commit()\<close> flushes and commits. It raises what the store answers, or \<^verbatim>\<open>DataError\<close>
  when the store has nothing against the write but a pending insert holds a balance the column
  cannot take. When it raises, the session rolls the transaction back and drops its pending
  state before the exception leaves \<^verbatim>\<open>commit\<close>, and nothing is written.
\<close>

definition flush_error :: "failure option \<Rightarrow> session \<Rightarrow> db_error option" where
  "flush_error outcome db =
     (case commit_raises outcome of
        Some e \<Rightarrow> Some e
      | None \<Rightarrow> if list_all storable (new db) then None else Some DataError)"

definition commit :: "failure option \<Rightarrow> session \<Rightarrow> db_error option \<times> session" where
  "commit outcome db =
     (case flush_error outcome db of
        None \<Rightarrow>
          (None, db\<lparr>rows := flush db, new := [], dirty := [], calls := calls db @ [Commit]\<rparr>)
      | Some e \<Rightarrow>
          (Some e, db\<lparr>new := [], dirty := [], calls := calls db @ [Commit, Rollback]\<rparr>))"

definition rollback :: "session \<Rightarrow> session" where
  "rollback db = db\<lparr>new := [], dirty := [], calls := calls db @ [Rollback]\<rparr>"

text \<open>
  \<^verbatim>\<open>db.refresh(obj)\<close> reads the object's row again, by primary key, unless the store raises.
\<close>

definition refresh :: "failure option \<Rightarrow> account \<Rightarrow> session \<Rightarrow> (error + account) \<times> session" where
  "refresh outcome a db =
     (case refresh_raises outcome of
        Some e \<Rightarrow> (Inl (DBError e), db\<lparr>calls := calls db @ [Refresh]\<rparr>)
      | None \<Rightarrow>
          (case find (\<lambda>r. id_pk r = id_pk a) (rows db) of
             None \<Rightarrow> (Inl (DBError InvalidRequestError), db\<lparr>calls := calls db @ [Refresh]\<rparr>)
           | Some r \<Rightarrow> (Inr r, db\<lparr>calls := calls db @ [Refresh]\<rparr>)))"

text \<open>
  \<^verbatim>\<open>db.query(Account).filter(...).first()\<close> and \<^verbatim>\<open>.all()\<close>. The session does not autoflush,
  so a query reads the committed rows.
\<close>

definition query_first :: "(account \<Rightarrow> bool) \<Rightarrow> session \<Rightarrow> account option \<times> session" where
  "query_first P db = (find P (rows db), db\<lparr>calls := calls db @ [Query]\<rparr>)"

definition query_all :: "(account \<Rightarrow> bool) \<Rightarrow> session \<Rightarrow> account list \<times> session" where
  "query_all P db = (filter P (rows db), db\<lparr>calls := calls db @ [Query]\<rparr>)"

section \<open>The account service\<close>

text \<open>
  \<^verbatim>\<open>str.lower()\<close> on UTF-8 text, as far as a lookup in \<^verbatim>\<open>MINIMUM_DEPOSITS\<close> can tell. The code
  points whose lower case is an ASCII letter are \<^verbatim>\<open>A-Z\<close> and the Kelvin sign U+212A (the bytes
  E2 84 AA), which lower-cases to \<^verbatim>\<open>k\<close>. The lower case of any other code point outside ASCII
  has a code point outside ASCII, so the text is no key of the table either way; such bytes
  are kept as they are.
\<close>

definition lower_char :: "char \<Rightarrow> char" where
  "lower_char c =
     (let n = (of_char c :: nat) in if 65 \<le> n \<and> n \<le> 90 then char_of (n + 32) else c)"

fun lower :: "string \<Rightarrow> string" where
  "lower (c1 # c2 # c3 # cs) =
     (if c1 = CHR 0xE2 \<and> c2 = CHR 0x84 \<and> c3 = CHR 0xAA then CHR ''k'' # lower cs
      else lower_char c1 # lower (c2 # c3 # cs))"
| "lower (c # cs) = lower_char c # lower cs"
| "lower [] = []"

definition MINIMUM_DEPOSITS :: "string \<rightharpoonup> rat" where
  "MINIMUM_DEPOSITS = map_of [(''checking'', 25), (''savings'', 100)]"

text \<open>
  \<^verbatim>\<open>create_account(db, user_id, data)\<close>. The flush of a successful commit writes the assigned
  key back to the object, which was added last and so is the last row. The handler
  \<^verbatim>\<open>except IntegrityError\<close> covers the commit and the refresh.
\<close>

definition create_account ::
  "session \<Rightarrow> int \<Rightarrow> AccountCreate \<Rightarrow> failure option \<Rightarrow> (error + account) \<times> session" where
  "create_account db uid data outcome =
     (let acct_type = lower (create_account_type data) in
      case MINIMUM_DEPOSITS acct_type of
        None \<Rightarrow> (Inl (ValueError Invalid_account_type), db)
      | Some min_required \<Rightarrow>
          if initial_deposit data < min_required
          then (Inl (ValueError (Minimum_deposit acct_type min_required)), db)
          else
            let acct = \<lparr>id_pk = None, user_id = uid, account_type = acct_type,
                        balance = initial_deposit data, status = ''active'',
                        nickname = create_nickname data\<rparr>
            in (case commit outcome (add acct db) of
                  (Some IntegrityError, db2) \<Rightarrow>
                    (Inl (HTTPException 400 ''Account could not be created.''), rollback db2)
                | (Some e, db2) \<Rightarrow> (Inl (DBError e), db2)
                | (None, db2) \<Rightarrow>
                    (case refresh outcome (acct\<lparr>id_pk := id_pk (last (rows db2))\<rparr>) db2 of
                       (Inl (DBError IntegrityError), db3) \<Rightarrow>
                         (Inl (HTTPException 400 ''Account could not be created.''), rollback db3)
                     | (res, db3) \<Rightarrow> (res, db3))))"

definition get_user_accounts :: "session \<Rightarrow> int \<Rightarrow> account list \<times> session" where
  "get_user_accounts db uid =
     query_all (\<lambda>r. user_id r = uid \<and> status r \<noteq> ''closed'') db"

definition get_account_by_id :: "session \<Rightarrow> int \<Rightarrow> int \<Rightarrow> (error + account) \<times> session" where
  "get_account_by_id db uid aid =
     (case query_first (\<lambda>r. id_pk r = Some aid \<and> user_id r = uid) db of
        (None, db1) \<Rightarrow> (Inl (HTTPException 404 ''Account not found.''), db1)
      | (Some acct, db1) \<Rightarrow> (Inr acct, db1))"

definition update_account ::
  "session \<Rightarrow> int \<Rightarrow> int \<Rightarrow> AccountUpdate \<Rightarrow> failure option \<Rightarrow> (error + account) \<times> session" where
  "update_account db uid aid data outcome =
     (case query_first (\<lambda>r. id_pk r = Some aid \<and> user_id r = uid) db of
        (None, db1) \<Rightarrow> (Inl (HTTPException 404 ''Account not found.''), db1)
      | (Some acct, db1) \<Rightarrow>
          let (acct1, db2) =
                (case update_nickname data of
                   None \<Rightarrow> (acct, db1)
                 | Some n \<Rightarrow> (acct\<lparr>nickname := Some n\<rparr>, assign (acct\<lparr>nickname := Some n\<rparr>) db1))
          in (case update_status data of
                None \<Rightarrow>
                  (case commit outcome db2 of
                     (Some e, db3) \<Rightarrow> (Inl (DBError e), db3)
                   | (None, db3) \<Rightarrow> refresh outcome acct1 db3)
              | Some st \<Rightarrow>
                  if st \<notin> set [''active'', ''frozen'', ''closed'']
                  then (Inl (HTTPException 400 ''Invalid status.''), db2)
                  else
                    (let acct2 = acct1\<lparr>status := st\<rparr>
                     in (case commit outcome (assign acct2 db2) of
                           (Some e, db3) \<Rightarrow> (Inl (DBError e), db3)
                         | (None, db3) \<Rightarrow> refresh outcome acct2 db3))))"

definition delete_account ::
  "session \<Rightarrow> int \<Rightarrow> int \<Rightarrow> failure option \<Rightarrow> (error + unit) \<times> session" where
  "delete_account db uid aid outcome =
     (case query_first (\<lambda>r. id_pk r = Some aid \<and> user_id r = uid) db of
        (None, db1) \<Rightarrow> (Inl (HTTPException 404 ''Account not found.''), db1)
      | (Some acct, db1) \<Rightarrow>
          (case commit outcome (assign (acct\<lparr>status := ''closed''\<rparr>) db1) of
             (Some e, db2) \<Rightarrow> (Inl (DBError e), db2)
           | (None, db2) \<Rightarrow> (Inr (), db2)))"

section \<open>Requests\<close>

text \<open>
  The five endpoints of \<^verbatim>\<open>app/routers/account_router.py\<close>, each with the authenticated
  user's id and, for a write, the store's answer. A request runs in a session
  of its own on the table the earlier requests left.
\<close>

datatype request =
    CreateAccount int AccountCreate "failure option"
  | GetUserAccounts int
  | GetAccountById int int
  | UpdateAccount int int AccountUpdate "failure option"
  | DeleteAccount int int "failure option"

fun handle :: "account list \<Rightarrow> request \<Rightarrow> account list" where
  "handle rs (CreateAccount uid data outcome) =
     rows (snd (create_account (SessionLocal rs) uid data outcome))"
| "handle rs (GetUserAccounts uid) = rows (snd (get_user_accounts (SessionLocal rs) uid))"
| "handle rs (GetAccountById uid aid) = rows (snd (get_account_by_id (SessionLocal rs) uid aid))"
| "handle rs (UpdateAccount uid aid data outcome) =
     rows (snd (update_account (SessionLocal rs) uid aid data outcome))"
| "handle rs (DeleteAccount uid aid outcome) =
     rows (snd (delete_account (SessionLocal rs) uid aid outcome))"

definition run :: "account list \<Rightarrow> request list \<Rightarrow> account list" where
  "run rs reqs = foldl handle rs reqs"

text \<open>
  The requests that ask for status \<^verbatim>\<open>closed\<close>: a \<^verbatim>\<open>DELETE\<close>, and a \<^verbatim>\<open>PUT\<close> whose body carries
  that status.
\<close>

fun closing :: "request \<Rightarrow> bool" where
  "closing (DeleteAccount uid aid outcome) = True"
| "closing (UpdateAccount uid aid data outcome) = (update_status data = Some ''closed'')"
| "closing (CreateAccount uid data outcome) = False"
| "closing (GetUserAccounts uid) = False"
| "closing (GetAccountById uid aid) = False"

text \<open>The primary key constraint of the table.\<close>

definition pk_unique :: "account list \<Rightarrow> bool" where
  "pk_unique rs \<longleftrightarrow> distinct (map id_pk rs)"

definition closed_ids :: "account list \<Rightarrow> int option set" where
  "closed_ids rs = id_pk ` {r \<in> set rs. status r = ''closed''}"

section \<open>The store: keys and flushes\<close>

lemma max_id_ge: "r \<in> set rs \<Longrightarrow> id_pk r = Some i \<Longrightarrow> i \<le> max_id rs"
  by (induction rs) (auto split: option.splits)

lemma next_id_fresh: "r \<in> set rs \<Longrightarrow> id_pk r \<noteq> Some (next_id rs)"
  using max_id_ge [of r rs "next_id rs"] by (auto simp: next_id_def)

lemma find_fresh_last:
  "\<forall>x\<in>set xs. \<not> P x \<Longrightarrow> P y \<Longrightarrow> find P (xs @ [y]) = Some y"
  by (induction xs) auto

lemma find_insert_row:
  "find (\<lambda>r. id_pk r = Some (next_id rs)) (insert_row a rs) =
     Some (a\<lparr>id_pk := Some (next_id rs), balance := quantize (balance a)\<rparr>)"
  unfolding insert_row_def by (rule find_fresh_last) (auto simp: next_id_fresh)

lemma flush_add:
  "flush (add a db) = insert_row a (flush db)"
  by (simp add: flush_def add_def)

lemma flush_SessionLocal: "flush (SessionLocal rs) = rs"
  by (simp add: flush_def SessionLocal_def)

lemma lower_checking: "lower ''checking'' = ''checking''"
  by code_simp

lemma lower_savings: "lower ''savings'' = ''savings''"
  by code_simp

lemma quantize_cents: "quantize (of_int k / 100) = of_int k / 100"
proof (cases "0 \<le> k")
  case True
  have "\<lfloor>(of_int k :: rat) + 1 / 2\<rfloor> = k"
    by linarith
  with True show ?thesis
    by (simp add: quantize_def)
next
  case False
  have "\<lfloor>(of_int (- k) :: rat) + 1 / 2\<rfloor> = - k"
    by linarith
  with False show ?thesis
    by (simp add: quantize_def)
qed

lemma quantize_pos: "0 < x \<Longrightarrow> 0 \<le> quantize x"
  by (simp add: quantize_def)

text \<open>The four ways a valid request to create an account ends.\<close>

lemma commit_add_refused:
  "commit (Some (At_commit e)) (add a db) =
     (Some e, db\<lparr>new := [], dirty := [], calls := calls db @ [Add, Commit, Rollback]\<rparr>)"
  by (simp add: commit_def flush_error_def add_def)

lemma commit_add_overflow:
  assumes "commit_raises outcome = None" and "\<not> (list_all storable (new db) \<and> storable a)"
  shows "commit outcome (add a db) =
     (Some DataError, db\<lparr>new := [], dirty := [], calls := calls db @ [Add, Commit, Rollback]\<rparr>)"
  using assms by (auto simp: commit_def flush_error_def add_def)

lemma commit_add:
  assumes "commit_raises outcome = None" and "list_all storable (new db)" and "storable a"
  shows "commit outcome (add a db) =
     (None, db\<lparr>rows := flush db @ [a\<lparr>id_pk := Some (next_id (flush db)),
                                        balance := quantize (balance a)\<rparr>],
               new := [], dirty := [], calls := calls db @ [Add, Commit]\<rparr>)"
proof -
  from assms have "flush_error outcome (add a db) = None"
    by (simp add: flush_error_def add_def)
  then show ?thesis
    by (simp add: commit_def flush_add insert_row_def) (simp add: add_def)
qed

lemma create_account_refused:
  assumes "MINIMUM_DEPOSITS (lower (create_account_type data)) = Some m"
    and "m \<le> initial_deposit data"
  shows "create_account db uid data (Some (At_commit e)) =
     (if e = IntegrityError
      then (Inl (HTTPException 400 ''Account could not be created.''),
            db\<lparr>new := [], dirty := [], calls := calls db @ [Add, Commit, Rollback, Rollback]\<rparr>)
      else (Inl (DBError e),
            db\<lparr>new := [], dirty := [], calls := calls db @ [Add, Commit, Rollback]\<rparr>))"
  using assms
  by (cases e) (simp_all add: create_account_def commit_add_refused rollback_def)

lemma create_account_overflow:
  assumes "MINIMUM_DEPOSITS (lower (create_account_type data)) = Some m"
    and "m \<le> initial_deposit data" and "commit_raises outcome = None"
    and "\<not> (list_all storable (new db) \<and> \<bar>quantize (initial_deposit data)\<bar> < 10 ^ 10)"
  shows "create_account db uid data outcome =
     (Inl (DBError DataError),
      db\<lparr>new := [], dirty := [], calls := calls db @ [Add, Commit, Rollback]\<rparr>)"
proof -
  let ?acct = "\<lparr>id_pk = None, user_id = uid, account_type = lower (create_account_type data),
      balance = initial_deposit data, status = ''active'', nickname = create_nickname data\<rparr>"
  from assms(4) have "\<not> (list_all storable (new db) \<and> storable ?acct)"
    by (simp add: storable_def)
  from commit_add_overflow [OF assms(3) this] assms(1,2) show ?thesis
    by (simp add: create_account_def)
qed

lemma create_account_written:
  assumes "MINIMUM_DEPOSITS (lower (create_account_type data)) = Some m"
    and "m \<le> initial_deposit data" and "commit_raises outcome = None"
    and "list_all storable (new db)" and "\<bar>quantize (initial_deposit data)\<bar> < 10 ^ 10"
  shows "create_account db uid data outcome =
     (let a = \<lparr>id_pk = Some (next_id (flush db)), user_id = uid,
                account_type = lower (create_account_type data),
                balance = quantize (initial_deposit data),
                status = ''active'', nickname = create_nickname data\<rparr>;
          db' = db\<lparr>rows := flush db @ [a], new := [], dirty := []\<rparr>
      in case refresh_raises outcome of
           None \<Rightarrow> (Inr a, db'\<lparr>calls := calls db @ [Add, Commit, Refresh]\<rparr>)
         | Some e \<Rightarrow>
             if e = IntegrityError
             then (Inl (HTTPException 400 ''Account could not be created.''),
                   db'\<lparr>calls := calls db @ [Add, Commit, Refresh, Rollback]\<rparr>)
             else (Inl (DBError e), db'\<lparr>calls := calls db @ [Add, Commit, Refresh]\<rparr>))"
proof -
  let ?acct = "\<lparr>id_pk = None, user_id = uid, account_type = lower (create_account_type data),
      balance = initial_deposit data, status = ''active'', nickname = create_nickname data\<rparr>"
  from assms(5) have "storable ?acct"
    by (simp add: storable_def)
  note c = commit_add [OF assms(3,4) this]
  show ?thesis
  proof (cases "refresh_raises outcome")
    case None
    with assms(1,2) find_insert_row [of "flush db" ?acct] show ?thesis
      by (simp add: create_account_def c refresh_def insert_row_def Let_def)
  next
    case (Some e)
    with assms(1,2) show ?thesis
      by (cases e) (simp_all add: create_account_def c refresh_def rollback_def Let_def)
  qed
qed

lemma create_account_Inr:
  assumes "create_account db uid data outcome = (Inr a, db')"
  shows "outcome = None \<and> list_all storable (new db) \<and>
     \<bar>quantize (initial_deposit data)\<bar> < 10 ^ 10 \<and>
     (\<exists>m. MINIMUM_DEPOSITS (lower (create_account_type data)) = Some m \<and> m \<le> initial_deposit data)"
proof (cases "MINIMUM_DEPOSITS (lower (create_account_type data))")
  case None
  with assms show ?thesis by (simp add: create_account_def)
next
  case (Some m)
  show ?thesis
  proof (cases "initial_deposit data < m")
    case True
    with Some assms show ?thesis by (simp add: create_account_def)
  next
    case False
    then have m: "m \<le> initial_deposit data" by simp
    show ?thesis
    proof (cases "commit_raises outcome")
      case (Some e)
      then have "outcome = Some (At_commit e)"
        by (cases outcome rule: commit_raises.cases) auto
      with assms create_account_refused [OF \<open>MINIMUM_DEPOSITS _ = Some m\<close> m, of db uid e]
      show ?thesis by (simp split: if_splits)
    next
      case None
      show ?thesis
      proof (cases "list_all storable (new db) \<and> \<bar>quantize (initial_deposit data)\<bar> < 10 ^ 10")
        case False
        from create_account_overflow [OF \<open>MINIMUM_DEPOSITS _ = Some m\<close> m None False] assms
        show ?thesis by simp
      next
        case True
        then have s: "list_all storable (new db)" "\<bar>quantize (initial_deposit data)\<bar> < 10 ^ 10"
          by simp_all
        have "refresh_raises outcome = None"
        proof (cases "refresh_raises outcome")
          case (Some e)
          with create_account_written [OF \<open>MINIMUM_DEPOSITS _ = Some m\<close> m None s, of uid] assms
          show ?thesis by (simp add: Let_def split: if_splits)
        qed simp
        with None have "outcome = None"
          by (cases outcome rule: commit_raises.cases) auto
        with s \<open>MINIMUM_DEPOSITS _ = Some m\<close> m show ?thesis by simp
      qed
    qed
  qed
qed

lemma create_account_rows:
  "rows (snd (create_account (SessionLocal rs) uid data outcome)) = rs \<or>
   (\<exists>a. status a = ''active'' \<and>
      rows (snd (create_account (SessionLocal rs) uid data outcome)) = rs @ [a])"
proof (cases "MINIMUM_DEPOSITS (lower (create_account_type data))")
  case None
  then show ?thesis by (simp add: create_account_def SessionLocal_def)
next
  case (Some m)
  show ?thesis
  proof (cases "initial_deposit data < m")
    case True
    with Some show ?thesis by (simp add: create_account_def SessionLocal_def)
  next
    case False
    then have m: "m \<le> initial_deposit data" by simp
    have n: "list_all storable (new (SessionLocal rs))"
      by (simp add: SessionLocal_def)
    show ?thesis
    proof (cases "commit_raises outcome")
      case (Some e)
      then have "outcome = Some (At_commit e)"
        by (cases outcome rule: commit_raises.cases) auto
      then show ?thesis
        by (simp add: create_account_refused [OF \<open>MINIMUM_DEPOSITS _ = Some m\<close> m] SessionLocal_def)
    next
      case None
      show ?thesis
      proof (cases "\<bar>quantize (initial_deposit data)\<bar> < 10 ^ 10")
        case False
        with n have "\<not> (list_all storable (new (SessionLocal rs)) \<and>
            \<bar>quantize (initial_deposit data)\<bar> < 10 ^ 10)"
          by simp
        from create_account_overflow [OF \<open>MINIMUM_DEPOSITS _ = Some m\<close> m None this]
        show ?thesis by (simp add: SessionLocal_def)
      next
        case True
        from create_account_written [OF \<open>MINIMUM_DEPOSITS _ = Some m\<close> m None n True, of uid]
        show ?thesis
          by (cases "refresh_raises outcome") (simp_all add: Let_def flush_SessionLocal)
      qed
    qed
  qed
qed

section \<open>Creating an account\<close>

lemma lower_kelvin: "lower (''CHEC'' @ [CHR 0xE2, CHR 0x84, CHR 0xAA] @ ''ING'') = ''checking''"
  by code_simp

lemma quantize_near: "\<bar>quantize x - x\<bar> \<le> 1 / 200"
proof (cases "0 \<le> x")
  case True
  define n :: rat where "n = of_int \<lfloor>x * 100 + 1 / 2\<rfloor>"
  have "n \<le> x * 100 + 1 / 2" "x * 100 + 1 / 2 < n + 1"
    unfolding n_def by linarith+
  moreover from True have "quantize x = n / 100"
    by (simp add: quantize_def n_def)
  ultimately show ?thesis
    by linarith
next
  case False
  define n :: rat where "n = of_int \<lfloor>- x * 100 + 1 / 2\<rfloor>"
  have "n \<le> - x * 100 + 1 / 2" "- x * 100 + 1 / 2 < n + 1"
    unfolding n_def by linarith+
  moreover from False have "quantize x = - (n / 100)"
    by (simp add: quantize_def n_def)
  ultimately show ?thesis
    by linarith
qed

text \<open>
  C1, as stated, fails above the minimum: a deposit of 10000000000.00 passes the check of the
  minimum, and the balance column, \<^verbatim>\<open>Numeric(precision=12, scale=2)\<close>, cannot hold it; the
  commit raises, though the store has nothing else against the write, and no account is created.
\<close>

theorem deposit_overflow_counterexample:
  "MINIMUM_DEPOSITS ''checking'' = Some 25 \<and> (25 :: rat) \<le> 10000000000 \<and>
   create_account (SessionLocal []) 1
       \<lparr>create_account_type = ''checking'', create_nickname = None,
          initial_deposit = 10000000000\<rparr> None =
     (Inl (DBError DataError),
      \<lparr>rows = [], new = [], dirty = [], calls = [Add, Commit, Rollback]\<rparr>)"
  by code_simp

text \<open>
  C1, amended. For an account type that is \<^verbatim>\<open>checking\<close> or \<^verbatim>\<open>savings\<close>, the minimum is 25.00
  resp. 100.00. Below the minimum, which covers every deposit that is not strictly positive
  (the schema refuses those as well), \<open>create_account\<close> raises the \<^verbatim>\<open>ValueError\<close> of the minimum
  deposit, whatever the store would answer, and the session is untouched. At the minimum and
  above it the request is valid, and the account is created exactly when the store raises
  nothing and the deposit, rounded to two decimals, is below 10000000000, which is what the balance
  column holds; the account is then the new last row of the table.
\<close>

theorem create_account_minimum_deposit:
  assumes "create_account_type data \<in> {''checking'', ''savings''}"
  shows "MINIMUM_DEPOSITS ''checking'' = Some 25 \<and> MINIMUM_DEPOSITS ''savings'' = Some 100 \<and>
    (\<exists>m. MINIMUM_DEPOSITS (create_account_type data) = Some m \<and>
       (initial_deposit data < m \<longrightarrow>
          create_account db uid data outcome =
            (Inl (ValueError (Minimum_deposit (create_account_type data) m)), db)) \<and>
       (initial_deposit data \<le> 0 \<longrightarrow> initial_deposit data < m \<and> \<not> AccountCreate_valid data) \<and>
       (m \<le> initial_deposit data \<longrightarrow>
          AccountCreate_valid data \<and>
          ((\<exists>a db'. create_account (SessionLocal rs) uid data outcome = (Inr a, db')) \<longleftrightarrow>
             outcome = None \<and> quantize (initial_deposit data) < 10 ^ 10) \<and>
          (quantize (initial_deposit data) < 10 ^ 10 \<longrightarrow>
             (\<exists>a. create_account (SessionLocal rs) uid data None =
                (Inr a, \<lparr>rows = rs @ [a], new = [], dirty = [],
                         calls = [Add, Commit, Refresh]\<rparr>)))))"
proof -
  let ?t = "create_account_type data"
  let ?d = "initial_deposit data"
  have tab: "MINIMUM_DEPOSITS ''checking'' = Some 25" "MINIMUM_DEPOSITS ''savings'' = Some 100"
    by (simp_all add: MINIMUM_DEPOSITS_def)
  from assms have low: "lower ?t = ?t"
    using lower_checking lower_savings by auto
  from assms tab obtain m where m: "MINIMUM_DEPOSITS ?t = Some m" "0 < m"
    by auto
  from m low have lm: "MINIMUM_DEPOSITS (lower ?t) = Some m"
    by simp
  have below: "create_account db uid data outcome = (Inl (ValueError (Minimum_deposit ?t m)), db)"
    if "?d < m"
    using that m low by (simp add: create_account_def)
  have nonpos: "?d < m \<and> \<not> AccountCreate_valid data" if "?d \<le> 0"
    using that m by (simp add: AccountCreate_valid_def)
  have ok: "AccountCreate_valid data \<and>
      ((\<exists>a db'. create_account (SessionLocal rs) uid data outcome = (Inr a, db')) \<longleftrightarrow>
         outcome = None \<and> quantize ?d < 10 ^ 10) \<and>
      (quantize ?d < 10 ^ 10 \<longrightarrow>
         (\<exists>a. create_account (SessionLocal rs) uid data None =
            (Inr a, \<lparr>rows = rs @ [a], new = [], dirty = [], calls = [Add, Commit, Refresh]\<rparr>)))"
    if le: "m \<le> ?d"
  proof -
    from le m assms have valid: "AccountCreate_valid data"
      by (auto simp: AccountCreate_valid_def AccountType_def)
    from le m have "0 < ?d" by simp
    then have abs: "\<bar>quantize ?d\<bar> = quantize ?d"
      using quantize_pos by simp
    have n: "list_all storable (new (SessionLocal rs))"
      by (simp add: SessionLocal_def)
    have written: "\<exists>a. create_account (SessionLocal rs) uid data None =
        (Inr a, \<lparr>rows = rs @ [a], new = [], dirty = [], calls = [Add, Commit, Refresh]\<rparr>)"
      if "quantize ?d < 10 ^ 10"
    proof -
      from that abs have "\<bar>quantize ?d\<bar> < 10 ^ 10" by simp
      from create_account_written [OF lm le _ n this, of None uid] show ?thesis
        by (simp add: Let_def flush_SessionLocal) (simp add: SessionLocal_def)
    qed
    have "outcome = None \<and> quantize ?d < 10 ^ 10"
      if "create_account (SessionLocal rs) uid data outcome = (Inr a, db')" for a db'
      using create_account_Inr [OF that] abs by simp
    with written have "(\<exists>a db'. create_account (SessionLocal rs) uid data outcome = (Inr a, db')) \<longleftrightarrow>
         outcome = None \<and> quantize ?d < 10 ^ 10"
      by blast
    with valid written show ?thesis by blast
  qed
  from tab m below nonpos ok show ?thesis by blast
qed

theorem create_account_minimum_deposit_witness:
  "create_account (SessionLocal []) 1
       \<lparr>create_account_type = ''checking'', create_nickname = None, initial_deposit = 2499 / 100\<rparr> None =
     (Inl (ValueError (Minimum_deposit ''checking'' 25)), SessionLocal []) \<and>
   (\<exists>a. create_account (SessionLocal []) 1
       \<lparr>create_account_type = ''checking'', create_nickname = None, initial_deposit = 25\<rparr> None =
     (Inr a, \<lparr>rows = [a], new = [], dirty = [], calls = [Add, Commit, Refresh]\<rparr>)) \<and>
   (\<exists>a. create_account (SessionLocal []) 1
       \<lparr>create_account_type = ''savings'', create_nickname = None, initial_deposit = 100\<rparr> None =
     (Inr a, \<lparr>rows = [a], new = [], dirty = [], calls = [Add, Commit, Refresh]\<rparr>))"
proof -
  have q: "quantize 25 < 10 ^ 10" "quantize 100 < 10 ^ 10"
    using quantize_cents [of 2500] quantize_cents [of 10000] by simp_all
  from create_account_minimum_deposit [of
      "\<lparr>create_account_type = ''checking'', create_nickname = None, initial_deposit = 2499 / 100\<rparr>"
      "SessionLocal []" 1 None]
  have "create_account (SessionLocal []) 1
       \<lparr>create_account_type = ''checking'', create_nickname = None, initial_deposit = 2499 / 100\<rparr> None =
     (Inl (ValueError (Minimum_deposit ''checking'' 25)), SessionLocal [])"
    by (auto simp: MINIMUM_DEPOSITS_def)
  moreover from q create_account_minimum_deposit [of
      "\<lparr>create_account_type = ''checking'', create_nickname = None, initial_deposit = 25\<rparr>"
      _ 1 _ "[]"]
  have "\<exists>a. create_account (SessionLocal []) 1
       \<lparr>create_account_type = ''checking'', create_nickname = None, initial_deposit = 25\<rparr> None =
     (Inr a, \<lparr>rows = [a], new = [], dirty = [], calls = [Add, Commit, Refresh]\<rparr>)"
    by (auto simp: MINIMUM_DEPOSITS_def)
  moreover from q create_account_minimum_deposit [of
      "\<lparr>create_account_type = ''savings'', create_nickname = None, initial_deposit = 100\<rparr>"
      _ 1 _ "[]"]
  have "\<exists>a. create_account (SessionLocal []) 1
       \<lparr>create_account_type = ''savings'', create_nickname = None, initial_deposit = 100\<rparr> None =
     (Inr a, \<lparr>rows = [a], new = [], dirty = [], calls = [Add, Commit, Refresh]\<rparr>)"
    by (auto simp: MINIMUM_DEPOSITS_def)
  ultimately show ?thesis by blast
qed

text \<open>
  C4, as stated, fails on the balance: the request with deposit 25.006 is valid, and the
  account persisted and returned has balance 25.01, since the column keeps two decimals.
\<close>

theorem create_account_rounds_counterexample:
  "AccountCreate_valid
     \<lparr>create_account_type = ''checking'', create_nickname = None, initial_deposit = 25006 / 1000\<rparr> \<and>
   create_account (SessionLocal []) 1
       \<lparr>create_account_type = ''checking'', create_nickname = None, initial_deposit = 25006 / 1000\<rparr>
       None =
     (Inr \<lparr>id_pk = Some 1, user_id = 1, account_type = ''checking'', balance = 2501 / 100,
           status = ''active'', nickname = None\<rparr>,
      \<lparr>rows = [\<lparr>id_pk = Some 1, user_id = 1, account_type = ''checking'', balance = 2501 / 100,
           status = ''active'', nickname = None\<rparr>], new = [], dirty = [],
       calls = [Add, Commit, Refresh]\<rparr>) \<and>
   (2501 / 100 :: rat) \<noteq> 25006 / 1000"
  by code_simp

lemma create_account_cents:
  "create_account (SessionLocal []) 1
       \<lparr>create_account_type = ''checking'', create_nickname = None, initial_deposit = 2550 / 100\<rparr>
       None =
     (Inr \<lparr>id_pk = Some 1, user_id = 1, account_type = ''checking'', balance = 2550 / 100,
           status = ''active'', nickname = None\<rparr>,
      \<lparr>rows = [\<lparr>id_pk = Some 1, user_id = 1, account_type = ''checking'', balance = 2550 / 100,
           status = ''active'', nickname = None\<rparr>], new = [], dirty = [],
       calls = [Add, Commit, Refresh]\<rparr>)"
  by code_simp

text \<open>
  C4, amended. Whenever \<open>create_account\<close> returns an account, that account is the new last
  row of the table, its status is \<^verbatim>\<open>active\<close>, its owner is the caller, and its balance is the
  initial deposit rounded to two decimals: within half a cent of the deposit, and the deposit
  itself when that has no more than two decimals. Nothing else in the request has a say.
\<close>

theorem create_account_initial_state:
  assumes "create_account db uid data outcome = (Inr a, db')"
  shows "status a = ''active'' \<and> balance a = quantize (initial_deposit data) \<and>
         \<bar>balance a - initial_deposit data\<bar> \<le> 1 / 200 \<and>
         (\<forall>k::int. initial_deposit data = of_int k / 100 \<longrightarrow> balance a = initial_deposit data) \<and>
         user_id a = uid \<and> rows db' = flush db @ [a] \<and> outcome = None"
proof -
  from create_account_Inr [OF assms] obtain m where o: "outcome = None"
    and s: "list_all storable (new db)" "\<bar>quantize (initial_deposit data)\<bar> < 10 ^ 10"
    and m: "MINIMUM_DEPOSITS (lower (create_account_type data)) = Some m" "m \<le> initial_deposit data"
    by blast
  from create_account_written [OF m _ s, of None uid] assms o
  have a: "a = \<lparr>id_pk = Some (next_id (flush db)), user_id = uid,
                account_type = lower (create_account_type data),
                balance = quantize (initial_deposit data),
                status = ''active'', nickname = create_nickname data\<rparr>"
    and r: "rows db' = flush db @ [a]"
    by (auto simp: Let_def)
  from a have b: "balance a = quantize (initial_deposit data)" by simp
  have "\<forall>k::int. initial_deposit data = of_int k / 100 \<longrightarrow> balance a = initial_deposit data"
  proof (intro allI impI)
    fix k :: int
    assume h: "initial_deposit data = of_int k / 100"
    show "balance a = initial_deposit data"
      unfolding b h by (rule quantize_cents)
  qed
  with a r o b quantize_near [of "initial_deposit data"] show ?thesis
    by simp
qed

theorem create_account_initial_state_witness:
  "create_account (SessionLocal []) 1
       \<lparr>create_account_type = ''checking'', create_nickname = None, initial_deposit = 2550 / 100\<rparr>
       None =
     (Inr \<lparr>id_pk = Some 1, user_id = 1, account_type = ''checking'', balance = 2550 / 100,
           status = ''active'', nickname = None\<rparr>,
      \<lparr>rows = [\<lparr>id_pk = Some 1, user_id = 1, account_type = ''checking'', balance = 2550 / 100,
           status = ''active'', nickname = None\<rparr>], new = [], dirty = [],
       calls = [Add, Commit, Refresh]\<rparr>) \<and>
   status \<lparr>id_pk = Some 1, user_id = 1, account_type = ''checking'', balance = 2550 / 100,
           status = ''active'', nickname = None\<rparr> = ''active'' \<and>
   balance \<lparr>id_pk = Some 1, user_id = 1, account_type = ''checking'', balance = 2550 / 100,
           status = ''active'', nickname = None\<rparr> = quantize (2550 / 100)"
  using create_account_initial_state [OF create_account_cents] create_account_cents by simp

text \<open>
  C7. The account type is compared in lower case. A request whose type is not one of
  \<^verbatim>\<open>checking\<close> and \<^verbatim>\<open>savings\<close> does not pass the schema; and for every type whose lower case is
  not one of the two, \<open>create_account\<close> raises the \<^verbatim>\<open>ValueError\<close> of the account type, whatever
  the deposit and whatever the store would answer, and returns the session as it received it:
  no call was made on it, nothing is pending, no row was written.
\<close>

theorem create_account_invalid_type:
  "(create_account_type data \<notin> {''checking'', ''savings''} \<longrightarrow> \<not> AccountCreate_valid data) \<and>
   (lower (create_account_type data) \<notin> {''checking'', ''savings''} \<longrightarrow>
      create_account db uid data outcome = (Inl (ValueError Invalid_account_type), db))"
proof -
  have "MINIMUM_DEPOSITS (lower (create_account_type data)) = None"
    if "lower (create_account_type data) \<notin> {''checking'', ''savings''}"
    using that by (simp add: MINIMUM_DEPOSITS_def)
  then show ?thesis
    by (auto simp: create_account_def AccountCreate_valid_def AccountType_def)
qed

theorem create_account_invalid_type_witness:
  "lower ''Business'' \<notin> {''checking'', ''savings''} \<and>
   create_account (SessionLocal []) 1
       \<lparr>create_account_type = ''Business'', create_nickname = None, initial_deposit = 500\<rparr> None =
     (Inl (ValueError Invalid_account_type), SessionLocal [])"
proof -
  have l: "lower ''Business'' \<notin> {''checking'', ''savings''}"
    by code_simp
  from l create_account_invalid_type [of
      "\<lparr>create_account_type = ''Business'', create_nickname = None, initial_deposit = 500\<rparr>"
      "SessionLocal []" 1 None]
  show ?thesis by simp
qed

section \<open>Reading accounts\<close>

text \<open>
  C3. \<open>get_user_accounts\<close> returns exactly the rows of the table that belong to the user and
  are not closed: no closed account, no account of another user, and the empty list when the
  user has no such row; the function has no error result, and the table is left as it is.
\<close>

theorem get_user_accounts_scope:
  "set (fst (get_user_accounts db uid)) =
     {r \<in> set (rows db). user_id r = uid \<and> status r \<noteq> ''closed''} \<and>
   (\<forall>r\<in>set (fst (get_user_accounts db uid)). status r \<noteq> ''closed'' \<and> user_id r = uid) \<and>
   ((\<forall>r\<in>set (rows db). user_id r = uid \<longrightarrow> status r = ''closed'') \<longrightarrow>
      fst (get_user_accounts db uid) = []) \<and>
   rows (snd (get_user_accounts db uid)) = rows db"
  by (auto simp: get_user_accounts_def query_all_def filter_empty_conv)



theorem get_user_accounts_scope_witness:
  "fst (get_user_accounts (SessionLocal
      [\<lparr>id_pk = Some 1, user_id = 1, account_type = ''checking'', balance = 25,
         status = ''active'', nickname = None\<rparr>,
       \<lparr>id_pk = Some 2, user_id = 1, account_type = ''savings'', balance = 100,
         status = ''closed'', nickname = None\<rparr>,
       \<lparr>id_pk = Some 3, user_id = 2, account_type = ''savings'', balance = 300,
         status = ''frozen'', nickname = None\<rparr>]) 3) = [] \<and>
   fst (get_user_accounts (SessionLocal
      [\<lparr>id_pk = Some 1, user_id = 1, account_type = ''checking'', balance = 25,
         status = ''active'', nickname = None\<rparr>,
       \<lparr>id_pk = Some 2, user_id = 1, account_type = ''savings'', balance = 100,
         status = ''closed'', nickname = None\<rparr>,
       \<lparr>id_pk = Some 3, user_id = 2, account_type = ''savings'', balance = 300,
         status = ''frozen'', nickname = None\<rparr>]) 1) =
     [\<lparr>id_pk = Some 1, user_id = 1, account_type = ''checking'', balance = 25,
         status = ''active'', nickname = None\<rparr>]"
proof -
  let ?db = "SessionLocal
      [\<lparr>id_pk = Some 1, user_id = 1, account_type = ''checking'', balance = 25,
         status = ''active'', nickname = None\<rparr>,
       \<lparr>id_pk = Some 2, user_id = 1, account_type = ''savings'', balance = 100,
         status = ''closed'', nickname = None\<rparr>,
       \<lparr>id_pk = Some 3, user_id = 2, account_type = ''savings'', balance = 300,
         status = ''frozen'', nickname = None\<rparr>]"
  have "\<forall>r\<in>set (rows ?db). user_id r = 3 \<longrightarrow> status r = ''closed''"
    by (simp add: SessionLocal_def)
  with get_user_accounts_scope [of ?db 3] have "fst (get_user_accounts ?db 3) = []"
    by (elim conjE impE)
  moreover have "fst (get_user_accounts ?db 1) =
     [\<lparr>id_pk = Some 1, user_id = 1, account_type = ''checking'', balance = 25,
         status = ''active'', nickname = None\<rparr>]"
    by (simp add: SessionLocal_def get_user_accounts_def query_all_def)
  ultimately show ?thesis ..
qed

lemma query_first_none:
  assumes "\<forall>r\<in>set rs. \<not> P r"
  shows "query_first P (SessionLocal rs) = (None, \<lparr>rows = rs, new = [], dirty = [], calls = [Query]\<rparr>)"
  using assms by (simp add: query_first_def SessionLocal_def find_None_iff)


text \<open>
  C2. When account \<open>aid\<close> exists and every row with that key belongs to another user, reading,
  updating and closing it all answer 404 \<^verbatim>\<open>Account not found.\<close>, carry no account data and
  leave the table alone; the answer is the one given on a table \<open>rs'\<close> that has no such account.
\<close>

theorem other_owner_not_found:
  assumes "\<exists>r\<in>set rs. id_pk r = Some aid"
    and "\<forall>r\<in>set rs. id_pk r = Some aid \<longrightarrow> user_id r \<noteq> uid"
    and "\<forall>r\<in>set rs'. id_pk r \<noteq> Some aid"
  shows "get_account_by_id (SessionLocal rs) uid aid =
           (Inl (HTTPException 404 ''Account not found.''),
            \<lparr>rows = rs, new = [], dirty = [], calls = [Query]\<rparr>) \<and>
         update_account (SessionLocal rs) uid aid data outcome =
           (Inl (HTTPException 404 ''Account not found.''),
            \<lparr>rows = rs, new = [], dirty = [], calls = [Query]\<rparr>) \<and>
         delete_account (SessionLocal rs) uid aid outcome =
           (Inl (HTTPException 404 ''Account not found.''),
            \<lparr>rows = rs, new = [], dirty = [], calls = [Query]\<rparr>) \<and>
         fst (get_account_by_id (SessionLocal rs') uid aid) =
           fst (get_account_by_id (SessionLocal rs) uid aid) \<and>
         fst (update_account (SessionLocal rs') uid aid data outcome) =
           fst (update_account (SessionLocal rs) uid aid data outcome) \<and>
         fst (delete_account (SessionLocal rs') uid aid outcome) =
           fst (delete_account (SessionLocal rs) uid aid outcome)"
proof -
  let ?P = "\<lambda>r. id_pk r = Some aid \<and> user_id r = uid"
  from assms(2) have "\<forall>r\<in>set rs. \<not> ?P r" by blast
  then have q: "query_first ?P (SessionLocal rs) =
      (None, \<lparr>rows = rs, new = [], dirty = [], calls = [Query]\<rparr>)"
    by (rule query_first_none)
  from assms(3) have "\<forall>r\<in>set rs'. \<not> ?P r" by blast
  then have q': "query_first ?P (SessionLocal rs') =
      (None, \<lparr>rows = rs', new = [], dirty = [], calls = [Query]\<rparr>)"
    by (rule query_first_none)
  show ?thesis
    by (simp add: get_account_by_id_def update_account_def delete_account_def q q')
qed


theorem other_owner_not_found_witness:
  "fst (get_account_by_id (SessionLocal
      [\<lparr>id_pk = Some 1, user_id = 1, account_type = ''checking'', balance = 25,
         status = ''active'', nickname = Some ''rent''\<rparr>]) 2 1) =
     Inl (HTTPException 404 ''Account not found.'') \<and>
   fst (get_account_by_id (SessionLocal []) 2 1) = Inl (HTTPException 404 ''Account not found.'') \<and>
   fst (get_account_by_id (SessionLocal
      [\<lparr>id_pk = Some 1, user_id = 1, account_type = ''checking'', balance = 25,
         status = ''active'', nickname = Some ''rent''\<rparr>]) 1 1) =
     Inr \<lparr>id_pk = Some 1, user_id = 1, account_type = ''checking'', balance = 25,
         status = ''active'', nickname = Some ''rent''\<rparr>"
  using other_owner_not_found [of
      "[\<lparr>id_pk = Some 1, user_id = 1, account_type = ''checking'', balance = 25,
         status = ''active'', nickname = Some ''rent''\<rparr>]" 1 2 "[]"]
  by (simp add: get_account_by_id_def query_first_def SessionLocal_def)

section \<open>Updating an account\<close>

lemma query_first_some:
  assumes "find P rs = Some acct"
  shows "query_first P (SessionLocal rs) =
     (Some acct, \<lparr>rows = rs, new = [], dirty = [], calls = [Query]\<rparr>)"
  using assms by (simp add: query_first_def SessionLocal_def)

lemma find_SomeD: "find P rs = Some a \<Longrightarrow> a \<in> set rs \<and> P a"
  by (induction rs) (auto split: if_splits)

lemma find_update_row:
  assumes "find P rs = Some acct" and "P a" and "id_pk a = id_pk acct"
    and "\<forall>r. P r \<longrightarrow> id_pk r = id_pk acct"
  shows "find P (update_row a rs) = Some a"
  using assms(1)
proof (induction rs)
  case Nil
  then show ?case by simp
next
  case (Cons r rs)
  show ?case
  proof (cases "id_pk r = id_pk a")
    case True
    with assms(2) show ?thesis
      by (simp add: update_row_def)
  next
    case False
    with assms(3,4) have "\<not> P r" by auto
    with Cons.prems have "find P rs = Some acct" by simp
    then have "find P (update_row a rs) = Some a" by (rule Cons.IH)
    with False \<open>\<not> P r\<close> show ?thesis
      by (simp add: update_row_def)
  qed
qed

lemma find_id_update_row:
  assumes "acct \<in> set rs" and "id_pk a = id_pk acct"
  shows "find (\<lambda>r. id_pk r = id_pk a) (update_row a rs) = Some a"
  using assms by (induction rs) (auto simp: update_row_def)

lemma find_id_some:
  assumes "acct \<in> set rs"
  shows "\<exists>r. find (\<lambda>r. id_pk r = id_pk acct) rs = Some r \<and> id_pk r = id_pk acct \<and> r \<in> set rs"
  using assms by (induction rs) auto

lemma find_id_unique:
  assumes "pk_unique rs" and "acct \<in> set rs"
  shows "find (\<lambda>r. id_pk r = id_pk acct) rs = Some acct"
  using assms by (induction rs) (auto simp: pk_unique_def)

lemma update_row_ids: "map id_pk (update_row a rs) = map id_pk rs"
  by (simp add: update_row_def)

lemma update_row_twice: "update_row a (update_row a rs) = update_row a rs"
  by (simp add: update_row_def)

lemma update_row_unique:
  assumes "pk_unique rs" and "acct \<in> set rs" and "id_pk a = id_pk acct"
  shows "update_row a rs = map (\<lambda>r. if r = acct then a else r) rs"
  using assms by (auto simp: update_row_def pk_unique_def distinct_map inj_on_def)

lemma update_row_balance:
  assumes "pk_unique rs" and "acct \<in> set rs" and "id_pk a = id_pk acct" and "balance a = balance acct"
  shows "map balance (update_row a rs) = map balance rs"
  using assms by (simp add: update_row_unique [where acct = acct])

lemma commit_fresh:
  "commit outcome \<lparr>rows = rs, new = [], dirty = d, calls = cs\<rparr> =
     (case commit_raises outcome of
        Some e \<Rightarrow> (Some e, \<lparr>rows = rs, new = [], dirty = [], calls = cs @ [Commit, Rollback]\<rparr>)
      | None \<Rightarrow> (None, \<lparr>rows = fold update_row d rs, new = [], dirty = [], calls = cs @ [Commit]\<rparr>))"
  by (simp add: commit_def flush_error_def flush_def split: option.splits)

lemma update_account_result:
  assumes "find (\<lambda>r. id_pk r = Some aid \<and> user_id r = uid) rs = Some acct"
  shows "update_account (SessionLocal rs) uid aid data outcome =
    (let acct1 = (case update_nickname data of None \<Rightarrow> acct | Some n \<Rightarrow> acct\<lparr>nickname := Some n\<rparr>);
         d1 = (case update_nickname data of None \<Rightarrow> [] | Some n \<Rightarrow> [acct1])
     in case update_status data of
          None \<Rightarrow>
            (case commit_raises outcome of
               None \<Rightarrow> refresh outcome acct1
                 \<lparr>rows = fold update_row d1 rs, new = [], dirty = [], calls = [Query, Commit]\<rparr>
             | Some e \<Rightarrow> (Inl (DBError e),
                 \<lparr>rows = rs, new = [], dirty = [], calls = [Query, Commit, Rollback]\<rparr>))
        | Some st \<Rightarrow>
            if st \<notin> set [''active'', ''frozen'', ''closed'']
            then (Inl (HTTPException 400 ''Invalid status.''),
                  \<lparr>rows = rs, new = [], dirty = d1, calls = [Query]\<rparr>)
            else (case commit_raises outcome of
               None \<Rightarrow> refresh outcome (acct1\<lparr>status := st\<rparr>)
                 \<lparr>rows = update_row (acct1\<lparr>status := st\<rparr>) rs, new = [], dirty = [],
                  calls = [Query, Commit]\<rparr>
             | Some e \<Rightarrow> (Inl (DBError e),
                 \<lparr>rows = rs, new = [], dirty = [], calls = [Query, Commit, Rollback]\<rparr>)))"
proof (cases "update_nickname data")
  case None
  show ?thesis
  proof (cases "update_status data")
    case no_status: None
    show ?thesis
      unfolding update_account_def query_first_some [OF assms]
      by (cases "commit_raises outcome") (simp_all add: Let_def None no_status commit_fresh)
  next
    case (Some st)
    show ?thesis
      unfolding update_account_def query_first_some [OF assms]
      by (cases "commit_raises outcome")
         (simp_all add: Let_def None Some assign_def commit_fresh)
  qed
next
  case (Some n)
  show ?thesis
  proof (cases "update_status data")
    case None
    show ?thesis
      unfolding update_account_def query_first_some [OF assms]
      by (cases "commit_raises outcome")
         (simp_all add: Let_def None Some assign_def commit_fresh)
  next
    case with_status: (Some st)
    show ?thesis
      unfolding update_account_def query_first_some [OF assms]
      by (cases "commit_raises outcome")
         (simp_all add: Let_def with_status Some assign_def commit_fresh)
  qed
qed

lemma delete_account_result:
  assumes "find (\<lambda>r. id_pk r = Some aid \<and> user_id r = uid) rs = Some acct"
  shows "delete_account (SessionLocal rs) uid aid outcome =
    (case commit_raises outcome of
       None \<Rightarrow> (Inr (), \<lparr>rows = update_row (acct\<lparr>status := ''closed''\<rparr>) rs, new = [],
                         dirty = [], calls = [Query, Commit]\<rparr>)
     | Some e \<Rightarrow> (Inl (DBError e),
                   \<lparr>rows = rs, new = [], dirty = [], calls = [Query, Commit, Rollback]\<rparr>))"
  unfolding delete_account_def query_first_some [OF assms]
  by (cases "commit_raises outcome") (simp_all add: assign_def commit_fresh)

lemma refresh_raised:
  assumes "refresh_raises outcome = Some e"
  shows "refresh outcome a \<lparr>rows = rs, new = [], dirty = [], calls = cs\<rparr> =
     (Inl (DBError e), \<lparr>rows = rs, new = [], dirty = [], calls = cs @ [Refresh]\<rparr>)"
  using assms by (simp add: refresh_def)

lemma refresh_update_row:
  assumes "acct \<in> set rs" and "id_pk a = id_pk acct" and "refresh_raises outcome = None"
  shows "refresh outcome a \<lparr>rows = update_row a rs, new = [], dirty = [], calls = cs\<rparr> =
     (Inr a, \<lparr>rows = update_row a rs, new = [], dirty = [], calls = cs @ [Refresh]\<rparr>)"
  using find_id_update_row [OF assms(1,2)] assms(3) by (simp add: refresh_def)

lemma refresh_present:
  assumes "acct \<in> set rs" and "refresh_raises outcome = None"
  shows "\<exists>r. refresh outcome acct \<lparr>rows = rs, new = [], dirty = [], calls = cs\<rparr> =
     (Inr r, \<lparr>rows = rs, new = [], dirty = [], calls = cs @ [Refresh]\<rparr>) \<and>
     id_pk r = id_pk acct \<and> r \<in> set rs"
  using find_id_some [OF assms(1)] assms(2) by (auto simp: refresh_def)

lemma refresh_unique:
  assumes "pk_unique rs" and "acct \<in> set rs" and "refresh_raises outcome = None"
  shows "refresh outcome acct \<lparr>rows = rs, new = [], dirty = [], calls = cs\<rparr> =
     (Inr acct, \<lparr>rows = rs, new = [], dirty = [], calls = cs @ [Refresh]\<rparr>)"
  using find_id_unique [OF assms(1,2)] assms(3) by (simp add: refresh_def)

text \<open>A committed update that assigns at least one field.\<close>

lemma update_account_nickname:
  assumes "find (\<lambda>r. id_pk r = Some aid \<and> user_id r = uid) rs = Some acct"
  shows "update_account (SessionLocal rs) uid aid
           \<lparr>update_nickname = Some n, update_status = None\<rparr> None =
     (Inr (acct\<lparr>nickname := Some n\<rparr>),
      \<lparr>rows = update_row (acct\<lparr>nickname := Some n\<rparr>) rs, new = [], dirty = [],
       calls = [Query, Commit, Refresh]\<rparr>)"
proof -
  from find_SomeD [OF assms] have "acct \<in> set rs" ..
  then show ?thesis
    by (simp add: update_account_result [OF assms] Let_def refresh_update_row [where acct = acct])
qed

lemma update_account_status:
  assumes "find (\<lambda>r. id_pk r = Some aid \<and> user_id r = uid) rs = Some acct"
    and "st \<in> set [''active'', ''frozen'', ''closed'']"
  shows "update_account (SessionLocal rs) uid aid
           \<lparr>update_nickname = None, update_status = Some st\<rparr> None =
     (Inr (acct\<lparr>status := st\<rparr>),
      \<lparr>rows = update_row (acct\<lparr>status := st\<rparr>) rs, new = [], dirty = [],
       calls = [Query, Commit, Refresh]\<rparr>)"
proof -
  from find_SomeD [OF assms(1)] have "acct \<in> set rs" ..
  with assms(2) show ?thesis
    unfolding update_account_result [OF assms(1)]
    by (simp add: Let_def refresh_update_row [where acct = acct] del: set_simps)
qed

lemma update_account_both:
  assumes "find (\<lambda>r. id_pk r = Some aid \<and> user_id r = uid) rs = Some acct"
    and "st \<in> set [''active'', ''frozen'', ''closed'']"
  shows "update_account (SessionLocal rs) uid aid
           \<lparr>update_nickname = Some n, update_status = Some st\<rparr> None =
     (Inr (acct\<lparr>nickname := Some n, status := st\<rparr>),
      \<lparr>rows = update_row (acct\<lparr>nickname := Some n, status := st\<rparr>) rs, new = [], dirty = [],
       calls = [Query, Commit, Refresh]\<rparr>)"
proof -
  from find_SomeD [OF assms(1)] have "acct \<in> set rs" ..
  with assms(2) show ?thesis
    unfolding update_account_result [OF assms(1)]
    by (simp add: Let_def refresh_update_row [where acct = acct] del: set_simps)
qed

lemma update_account_absent:
  assumes "find (\<lambda>r. id_pk r = Some aid \<and> user_id r = uid) rs = None"
  shows "update_account (SessionLocal rs) uid aid data outcome =
     (Inl (HTTPException 404 ''Account not found.''),
      \<lparr>rows = rs, new = [], dirty = [], calls = [Query]\<rparr>)"
  using assms by (simp add: update_account_def query_first_def SessionLocal_def)

lemma delete_account_absent:
  assumes "find (\<lambda>r. id_pk r = Some aid \<and> user_id r = uid) rs = None"
  shows "delete_account (SessionLocal rs) uid aid outcome =
     (Inl (HTTPException 404 ''Account not found.''),
      \<lparr>rows = rs, new = [], dirty = [], calls = [Query]\<rparr>)"
  using assms by (simp add: delete_account_def query_first_def SessionLocal_def)

lemma update_account_noop:
  assumes "pk_unique rs" and "find (\<lambda>r. id_pk r = Some aid \<and> user_id r = uid) rs = Some acct"
  shows "update_account (SessionLocal rs) uid aid
           \<lparr>update_nickname = None, update_status = None\<rparr> None =
     (Inr acct, \<lparr>rows = rs, new = [], dirty = [], calls = [Query, Commit, Refresh]\<rparr>)"
proof -
  from find_SomeD [OF assms(2)] have "acct \<in> set rs" ..
  from refresh_unique [OF assms(1) this, of None "[Query, Commit]"] show ?thesis
    by (simp add: update_account_result [OF assms(2)] Let_def)
qed

text \<open>
  Every way an update of an account the caller owns ends. The account \<open>acct'\<close> is the loaded one
  with the fields the request carries. The table is untouched when the request is refused or
  the commit raises, and holds \<open>acct'\<close> once a commit that had something to write went through,
  also when the re-read after it raises.
\<close>

lemma update_account_cases:
  assumes "find (\<lambda>r. id_pk r = Some aid \<and> user_id r = uid) rs = Some acct"
    and "acct' = acct\<lparr>nickname := (case update_nickname data of None \<Rightarrow> nickname acct | Some n \<Rightarrow> Some n),
                       status := (case update_status data of None \<Rightarrow> status acct | Some s \<Rightarrow> s)\<rparr>"
    and "res = update_account (SessionLocal rs) uid aid data outcome"
  shows "(isl (fst res) \<and> rows (snd res) = rs) \<or>
         (isl (fst res) \<and> rows (snd res) = update_row acct' rs) \<or>
         (update_nickname data = None \<and> update_status data = None \<and> rows (snd res) = rs \<and>
          (\<exists>r. fst res = Inr r \<and> r \<in> set rs \<and> id_pk r = id_pk acct)) \<or>
         (fst res = Inr acct' \<and> rows (snd res) = update_row acct' rs)"
proof -
  from find_SomeD [OF assms(1)] have mem: "acct \<in> set rs" ..
  obtain un us where data: "data = \<lparr>update_nickname = un, update_status = us\<rparr>"
    by (cases data) auto
  note unf = assms(3) update_account_result [OF assms(1)] data
  show ?thesis
  proof (cases "\<exists>st. us = Some st \<and> st \<notin> set [''active'', ''frozen'', ''closed'']")
    case True
    then show ?thesis
      unfolding unf by (auto simp: Let_def simp del: set_simps)
  next
    case valid: False
    show ?thesis
    proof (cases "commit_raises outcome")
      case (Some e)
      with valid show ?thesis
        unfolding unf by (cases us) (auto simp: Let_def simp del: set_simps)
    next
      case None
      show ?thesis
      proof (cases "un = None \<and> us = None")
        case True
        show ?thesis
        proof (cases "refresh_raises outcome")
          case (Some e)
          with True None show ?thesis
            unfolding unf by (simp add: Let_def refresh_raised)
        next
          case no_raise: None
          from refresh_present [OF mem no_raise, of "[Query, Commit]"] True None show ?thesis
            unfolding unf by (auto simp: Let_def)
        qed
      next
        case False
        have a': "acct' = (case un of None \<Rightarrow> acct | Some n \<Rightarrow> acct\<lparr>nickname := Some n\<rparr>)
            \<lparr>status := (case us of None \<Rightarrow> status acct | Some s \<Rightarrow> s)\<rparr>"
          unfolding assms(2) data by (cases un) simp_all
        have id: "id_pk acct' = id_pk acct"
          unfolding assms(2) by simp
        have call: "update_account (SessionLocal rs) uid aid data outcome =
            refresh outcome acct'
              \<lparr>rows = update_row acct' rs, new = [], dirty = [], calls = [Query, Commit]\<rparr>"
        proof (cases us)
          case no_status: None
          with False obtain n where "un = Some n" by auto
          with no_status None show ?thesis
            unfolding update_account_result [OF assms(1)] data a'
            by (simp add: Let_def)
        next
          case (Some st)
          with valid have "st \<in> set [''active'', ''frozen'', ''closed'']" by simp
          with Some None show ?thesis
            unfolding update_account_result [OF assms(1)] data a'
            by (cases un) (simp_all add: Let_def del: set_simps)
        qed
        show ?thesis
        proof (cases "refresh_raises outcome")
          case (Some e)
          then show ?thesis
            unfolding assms(3) call by (simp add: refresh_raised)
        next
          case no_raise: None
          from refresh_update_row [OF mem id no_raise] show ?thesis
            unfolding assms(3) call by simp
        qed
      qed
    qed
  qed
qed

text \<open>What any update does to the table: nothing, or one write of the loaded account.\<close>

lemma update_account_rows:
  assumes "find (\<lambda>r. id_pk r = Some aid \<and> user_id r = uid) rs = Some acct"
  shows "rows (snd (update_account (SessionLocal rs) uid aid data outcome)) = rs \<or>
    (\<exists>n s. (s = status acct \<or> update_status data = Some s) \<and>
            rows (snd (update_account (SessionLocal rs) uid aid data outcome)) =
              update_row (acct\<lparr>nickname := n, status := s\<rparr>) rs)"
proof -
  let ?n = "case update_nickname data of None \<Rightarrow> nickname acct | Some n \<Rightarrow> Some n"
  let ?s = "case update_status data of None \<Rightarrow> status acct | Some s \<Rightarrow> s"
  have s: "?s = status acct \<or> update_status data = Some ?s"
    by (cases "update_status data") simp_all
  from update_account_cases [OF assms refl refl, of data outcome]
  have "rows (snd (update_account (SessionLocal rs) uid aid data outcome)) = rs \<or>
      rows (snd (update_account (SessionLocal rs) uid aid data outcome)) =
        update_row (acct\<lparr>nickname := ?n, status := ?s\<rparr>) rs"
    by blast
  with s show ?thesis
    by blast
qed

text \<open>
  C9. For an account the caller owns, in a table with unique keys: a committed update that
  carries only a nickname returns the account with that nickname and everything else as it
  was, status and balance included, and writes that account only; one that carries only a
  status of \<^verbatim>\<open>AccountStatus\<close> changes the status alone, so the nickname stays; one that carries
  neither returns the account as it is and leaves the table as it is; and no update, whatever
  it carries and whatever the store answers, changes a balance of the table.
\<close>

theorem update_account_frame:
  assumes "pk_unique rs" and "find (\<lambda>r. id_pk r = Some aid \<and> user_id r = uid) rs = Some acct"
  shows "update_account (SessionLocal rs) uid aid
             \<lparr>update_nickname = Some n, update_status = None\<rparr> None =
           (Inr (acct\<lparr>nickname := Some n\<rparr>),
            \<lparr>rows = map (\<lambda>r. if r = acct then acct\<lparr>nickname := Some n\<rparr> else r) rs,
             new = [], dirty = [], calls = [Query, Commit, Refresh]\<rparr>) \<and>
         (st \<in> set AccountStatus \<longrightarrow>
            update_account (SessionLocal rs) uid aid
              \<lparr>update_nickname = None, update_status = Some st\<rparr> None =
            (Inr (acct\<lparr>status := st\<rparr>),
             \<lparr>rows = map (\<lambda>r. if r = acct then acct\<lparr>status := st\<rparr> else r) rs,
              new = [], dirty = [], calls = [Query, Commit, Refresh]\<rparr>)) \<and>
         update_account (SessionLocal rs) uid aid
             \<lparr>update_nickname = None, update_status = None\<rparr> None =
           (Inr acct, \<lparr>rows = rs, new = [], dirty = [], calls = [Query, Commit, Refresh]\<rparr>) \<and>
         map balance (rows (snd (update_account (SessionLocal rs) uid aid data outcome))) =
           map balance rs"
proof -
  from find_SomeD [OF assms(2)] have mem: "acct \<in> set rs" ..
  have nick: "update_account (SessionLocal rs) uid aid
             \<lparr>update_nickname = Some n, update_status = None\<rparr> None =
           (Inr (acct\<lparr>nickname := Some n\<rparr>),
            \<lparr>rows = map (\<lambda>r. if r = acct then acct\<lparr>nickname := Some n\<rparr> else r) rs,
             new = [], dirty = [], calls = [Query, Commit, Refresh]\<rparr>)"
    using update_row_unique [OF assms(1) mem, of "acct\<lparr>nickname := Some n\<rparr>"]
    by (simp add: update_account_nickname [OF assms(2)])
  have stat: "update_account (SessionLocal rs) uid aid
              \<lparr>update_nickname = None, update_status = Some st\<rparr> None =
            (Inr (acct\<lparr>status := st\<rparr>),
             \<lparr>rows = map (\<lambda>r. if r = acct then acct\<lparr>status := st\<rparr> else r) rs,
              new = [], dirty = [], calls = [Query, Commit, Refresh]\<rparr>)"
    if "st \<in> set AccountStatus"
  proof -
    from that have "st \<in> set [''active'', ''frozen'', ''closed'']"
      by (simp add: AccountStatus_def)
    from update_account_status [OF assms(2) this]
      update_row_unique [OF assms(1) mem, of "acct\<lparr>status := st\<rparr>"]
    show ?thesis by simp
  qed
  have bal: "map balance (rows (snd (update_account (SessionLocal rs) uid aid data outcome))) =
           map balance rs"
    using update_account_rows [OF assms(2), of data outcome]
    by (auto simp: update_row_balance [OF assms(1) mem])
  from nick stat update_account_noop [OF assms] bal show ?thesis
    by blast
qed

theorem update_account_frame_witness:
  "pk_unique
     [\<lparr>id_pk = Some 1, user_id = 1, account_type = ''checking'', balance = 25,
        status = ''active'', nickname = None\<rparr>,
      \<lparr>id_pk = Some 2, user_id = 2, account_type = ''savings'', balance = 300,
        status = ''frozen'', nickname = Some ''car''\<rparr>] \<and>
   fst (update_account (SessionLocal
     [\<lparr>id_pk = Some 1, user_id = 1, account_type = ''checking'', balance = 25,
        status = ''active'', nickname = None\<rparr>,
      \<lparr>id_pk = Some 2, user_id = 2, account_type = ''savings'', balance = 300,
        status = ''frozen'', nickname = Some ''car''\<rparr>]) 2 2
     \<lparr>update_nickname = Some ''bike'', update_status = None\<rparr> None) =
     Inr \<lparr>id_pk = Some 2, user_id = 2, account_type = ''savings'', balance = 300,
        status = ''frozen'', nickname = Some ''bike''\<rparr> \<and>
   fst (update_account (SessionLocal
     [\<lparr>id_pk = Some 1, user_id = 1, account_type = ''checking'', balance = 25,
        status = ''active'', nickname = None\<rparr>,
      \<lparr>id_pk = Some 2, user_id = 2, account_type = ''savings'', balance = 300,
        status = ''frozen'', nickname = Some ''car''\<rparr>]) 2 2
     \<lparr>update_nickname = None, update_status = Some ''active''\<rparr> None) =
     Inr \<lparr>id_pk = Some 2, user_id = 2, account_type = ''savings'', balance = 300,
        status = ''active'', nickname = Some ''car''\<rparr> \<and>
   map balance (rows (snd (update_account (SessionLocal
     [\<lparr>id_pk = Some 1, user_id = 1, account_type = ''checking'', balance = 25,
        status = ''active'', nickname = None\<rparr>,
      \<lparr>id_pk = Some 2, user_id = 2, account_type = ''savings'', balance = 300,
        status = ''frozen'', nickname = Some ''car''\<rparr>]) 2 2
     \<lparr>update_nickname = Some ''bike'', update_status = Some ''closed''\<rparr> None))) = [25, 300]"
proof -
  let ?r1 = "\<lparr>id_pk = Some 1, user_id = 1, account_type = ''checking'', balance = 25,
        status = ''active'', nickname = None\<rparr>"
  let ?r2 = "\<lparr>id_pk = Some 2, user_id = 2, account_type = ''savings'', balance = 300,
        status = ''frozen'', nickname = Some ''car''\<rparr>"
  have u: "pk_unique [?r1, ?r2]"
    by (simp add: pk_unique_def)
  have f: "find (\<lambda>r. id_pk r = Some 2 \<and> user_id r = 2) [?r1, ?r2] = Some ?r2"
    by simp
  have s: "''active'' \<in> set AccountStatus"
    by (simp add: AccountStatus_def)
  note t = update_account_frame [OF u f, of "''bike''" "''active''"
      "\<lparr>update_nickname = Some ''bike'', update_status = Some ''closed''\<rparr>" None]
  from t have "fst (update_account (SessionLocal [?r1, ?r2]) 2 2
      \<lparr>update_nickname = Some ''bike'', update_status = None\<rparr> None) =
      Inr (?r2\<lparr>nickname := Some ''bike''\<rparr>)"
    by (elim conjE) (simp only: fst_conv)
  moreover from t s have "fst (update_account (SessionLocal [?r1, ?r2]) 2 2
      \<lparr>update_nickname = None, update_status = Some ''active''\<rparr> None) =
      Inr (?r2\<lparr>status := ''active''\<rparr>)"
    by (elim conjE impE) (simp_all only: fst_conv)
  moreover from t have "map balance (rows (snd (update_account (SessionLocal [?r1, ?r2]) 2 2
      \<lparr>update_nickname = Some ''bike'', update_status = Some ''closed''\<rparr> None))) =
      map balance [?r1, ?r2]"
    by (elim conjE)
  ultimately show ?thesis using u
    by simp
qed

text \<open>
  C10. A request body with \<^verbatim>\<open>"nickname": null\<close> parses to the same result as the body without
  the field, and what it parses to has nickname \<^verbatim>\<open>None\<close>. However an update of an owned account
  ends, whatever it carries and whatever the store answers, the account's row in the table
  afterwards has the old nickname when the update carries none, never has nickname \<^verbatim>\<open>None\<close>
  when the account had one, and has otherwise the string supplied; a successful call returns
  that row. The empty string is such a string.
\<close>

theorem update_account_null_nickname:
  assumes "pk_unique rs" and "find (\<lambda>r. id_pk r = Some aid \<and> user_id r = uid) rs = Some acct"
  shows "AccountUpdate_parse (body\<lparr>body_nickname := Null\<rparr>) =
           AccountUpdate_parse (body\<lparr>body_nickname := Omitted\<rparr>) \<and>
         (\<forall>data'. AccountUpdate_parse (body\<lparr>body_nickname := Null\<rparr>) = Some data' \<longrightarrow>
            update_nickname data' = None) \<and>
         (update_account (SessionLocal rs) uid aid data outcome = (res, db') \<longrightarrow>
            (\<exists>stored. find (\<lambda>r. id_pk r = Some aid \<and> user_id r = uid) (rows db') = Some stored \<and>
               (\<forall>acct'. res = Inr acct' \<longrightarrow> acct' = stored) \<and>
               (update_nickname data = None \<longrightarrow> nickname stored = nickname acct) \<and>
               (nickname acct \<noteq> None \<longrightarrow> nickname stored \<noteq> None) \<and>
               (nickname stored = nickname acct \<or> nickname stored = update_nickname data))) \<and>
         update_account (SessionLocal rs) uid aid
             \<lparr>update_nickname = Some [], update_status = None\<rparr> None =
           (Inr (acct\<lparr>nickname := Some []\<rparr>),
            \<lparr>rows = map (\<lambda>r. if r = acct then acct\<lparr>nickname := Some []\<rparr> else r) rs,
             new = [], dirty = [], calls = [Query, Commit, Refresh]\<rparr>)"
proof -
  let ?P = "\<lambda>r. id_pk r = Some aid \<and> user_id r = uid"
  from find_SomeD [OF assms(2)] have mem: "acct \<in> set rs" and P: "?P acct"
    by simp_all
  have parse: "AccountUpdate_parse (body\<lparr>body_nickname := Null\<rparr>) =
           AccountUpdate_parse (body\<lparr>body_nickname := Omitted\<rparr>)"
    by (simp add: AccountUpdate_parse_def split: field.splits)
  have none: "\<forall>data'. AccountUpdate_parse (body\<lparr>body_nickname := Null\<rparr>) = Some data' \<longrightarrow>
            update_nickname data' = None"
    by (auto simp: AccountUpdate_parse_def split: field.splits if_splits)
  have keep: "\<exists>stored. find ?P (rows db') = Some stored \<and>
               (\<forall>acct'. res = Inr acct' \<longrightarrow> acct' = stored) \<and>
               (update_nickname data = None \<longrightarrow> nickname stored = nickname acct) \<and>
               (nickname acct \<noteq> None \<longrightarrow> nickname stored \<noteq> None) \<and>
               (nickname stored = nickname acct \<or> nickname stored = update_nickname data)"
    if call: "update_account (SessionLocal rs) uid aid data outcome = (res, db')"
  proof -
    define acct' where "acct' = acct\<lparr>nickname := (case update_nickname data of None \<Rightarrow> nickname acct | Some n \<Rightarrow> Some n),
                       status := (case update_status data of None \<Rightarrow> status acct | Some s \<Rightarrow> s)\<rparr>"
    have nick: "(update_nickname data = None \<longrightarrow> nickname acct' = nickname acct) \<and>
               (nickname acct \<noteq> None \<longrightarrow> nickname acct' \<noteq> None) \<and>
               (nickname acct' = nickname acct \<or> nickname acct' = update_nickname data)"
      unfolding acct'_def by (cases "update_nickname data") auto
    have stored': "find ?P (update_row acct' rs) = Some acct'"
      using assms(2) P by (intro find_update_row [where acct = acct]) (auto simp: acct'_def)
    from update_account_cases [OF assms(2) acct'_def call [symmetric]]
    consider (untouched) "isl res" "rows db' = rs"
      | (written) "isl res" "rows db' = update_row acct' rs"
      | (noop) r where "rows db' = rs" "res = Inr r" "r \<in> set rs" "id_pk r = id_pk acct"
      | (updated) "res = Inr acct'" "rows db' = update_row acct' rs"
      by auto
    then show ?thesis
    proof cases
      case untouched
      with assms(2) show ?thesis
        by (intro exI [of _ acct]) auto
    next
      case written
      with stored' nick show ?thesis
        by (intro exI [of _ acct']) auto
    next
      case noop
      from assms(1) mem noop(3,4) have "r = acct"
        by (auto simp: pk_unique_def distinct_map inj_on_def)
      with noop assms(2) show ?thesis
        by (intro exI [of _ acct]) auto
    next
      case updated
      with stored' nick show ?thesis
        by (intro exI [of _ acct']) auto
    qed
  qed
  have empty: "update_account (SessionLocal rs) uid aid
             \<lparr>update_nickname = Some [], update_status = None\<rparr> None =
           (Inr (acct\<lparr>nickname := Some []\<rparr>),
            \<lparr>rows = map (\<lambda>r. if r = acct then acct\<lparr>nickname := Some []\<rparr> else r) rs,
             new = [], dirty = [], calls = [Query, Commit, Refresh]\<rparr>)"
    using update_row_unique [OF assms(1) mem, of "acct\<lparr>nickname := Some []\<rparr>"]
    by (simp add: update_account_nickname [OF assms(2)])
  from parse none keep empty show ?thesis
    by blast
qed

theorem update_account_null_nickname_witness:
  "AccountUpdate_parse \<lparr>body_nickname = Null, body_status = Given ''frozen''\<rparr> =
     Some \<lparr>update_nickname = None, update_status = Some ''frozen''\<rparr> \<and>
   AccountUpdate_parse \<lparr>body_nickname = Omitted, body_status = Given ''frozen''\<rparr> =
     Some \<lparr>update_nickname = None, update_status = Some ''frozen''\<rparr> \<and>
   update_account (SessionLocal
     [\<lparr>id_pk = Some 2, user_id = 2, account_type = ''savings'', balance = 300,
        status = ''active'', nickname = Some ''car''\<rparr>]) 2 2
     \<lparr>update_nickname = None, update_status = Some ''frozen''\<rparr> None =
     (Inr \<lparr>id_pk = Some 2, user_id = 2, account_type = ''savings'', balance = 300,
        status = ''frozen'', nickname = Some ''car''\<rparr>,
      \<lparr>rows = [\<lparr>id_pk = Some 2, user_id = 2, account_type = ''savings'', balance = 300,
        status = ''frozen'', nickname = Some ''car''\<rparr>], new = [], dirty = [],
       calls = [Query, Commit, Refresh]\<rparr>) \<and>
   (\<exists>stored. find (\<lambda>r. id_pk r = Some 2 \<and> user_id r = 2)
        [\<lparr>id_pk = Some 2, user_id = 2, account_type = ''savings'', balance = 300,
          status = ''frozen'', nickname = Some ''car''\<rparr>] = Some stored \<and>
      nickname stored = Some ''car'') \<and>
   fst (update_account (SessionLocal
     [\<lparr>id_pk = Some 2, user_id = 2, account_type = ''savings'', balance = 300,
        status = ''active'', nickname = Some ''car''\<rparr>]) 2 2
     \<lparr>update_nickname = Some [], update_status = None\<rparr> None) =
     Inr \<lparr>id_pk = Some 2, user_id = 2, account_type = ''savings'', balance = 300,
        status = ''active'', nickname = Some []\<rparr>"
proof -
  let ?r = "\<lparr>id_pk = Some 2, user_id = 2, account_type = ''savings'', balance = 300,
        status = ''active'', nickname = Some ''car''\<rparr>"
  let ?r' = "\<lparr>id_pk = Some 2, user_id = 2, account_type = ''savings'', balance = 300,
        status = ''frozen'', nickname = Some ''car''\<rparr>"
  let ?db' = "\<lparr>rows = [?r'], new = [], dirty = [], calls = [Query, Commit, Refresh]\<rparr>"
  let ?data = "\<lparr>update_nickname = None, update_status = Some ''frozen''\<rparr>"
  have u: "pk_unique [?r]"
    by (simp add: pk_unique_def)
  have f: "find (\<lambda>r. id_pk r = Some 2 \<and> user_id r = 2) [?r] = Some ?r"
    by simp
  have p: "AccountUpdate_parse \<lparr>body_nickname = Omitted, body_status = Given ''frozen''\<rparr> =
     Some ?data"
    by (simp add: AccountUpdate_parse_def AccountStatus_def)
  have run: "update_account (SessionLocal [?r]) 2 2 ?data None = (Inr ?r', ?db')"
    by (simp add: update_account_status [OF f] update_row_def)
  note t = update_account_null_nickname [OF u f,
      of "\<lparr>body_nickname = Omitted, body_status = Given ''frozen''\<rparr>" ?data None "Inr ?r'" ?db']
  from t p have "AccountUpdate_parse \<lparr>body_nickname = Null, body_status = Given ''frozen''\<rparr> =
     Some ?data"
    by simp
  moreover from t run have "\<exists>stored. find (\<lambda>r. id_pk r = Some 2 \<and> user_id r = 2) [?r'] = Some stored \<and>
      nickname stored = Some ''car''"
    by auto
  moreover from t have "fst (update_account (SessionLocal [?r]) 2 2
     \<lparr>update_nickname = Some [], update_status = None\<rparr> None) = Inr (?r\<lparr>nickname := Some []\<rparr>)"
    by (elim conjE) (simp only: fst_conv)
  ultimately show ?thesis using p run
    by simp
qed

section \<open>Closing an account\<close>

text \<open>
  C5. Closing an account the caller owns, the store committing, keeps every row of the table
  (the keys are the same, in the same order) and leaves the account there with status
  \<^verbatim>\<open>closed\<close>; closing it again succeeds as well and changes nothing; after that, reading the
  account by its id returns it with status \<^verbatim>\<open>closed\<close>, and the list of the user's accounts
  no longer holds it.
\<close>

theorem delete_account_idempotent:
  assumes "find (\<lambda>r. id_pk r = Some aid \<and> user_id r = uid) rs = Some acct"
  shows "\<exists>db1 db2.
      delete_account (SessionLocal rs) uid aid None = (Inr (), db1) \<and>
      map id_pk (rows db1) = map id_pk rs \<and>
      find (\<lambda>r. id_pk r = Some aid \<and> user_id r = uid) (rows db1) =
        Some (acct\<lparr>status := ''closed''\<rparr>) \<and>
      delete_account (SessionLocal (rows db1)) uid aid None = (Inr (), db2) \<and>
      rows db2 = rows db1 \<and>
      fst (get_account_by_id (SessionLocal (rows db2)) uid aid) =
        Inr (acct\<lparr>status := ''closed''\<rparr>) \<and>
      acct\<lparr>status := ''closed''\<rparr> \<notin> set (fst (get_user_accounts (SessionLocal (rows db2)) uid))"
proof -
  let ?P = "\<lambda>r. id_pk r = Some aid \<and> user_id r = uid"
  let ?c = "acct\<lparr>status := ''closed''\<rparr>"
  let ?rs1 = "update_row ?c rs"
  let ?db1 = "\<lparr>rows = ?rs1, new = [], dirty = [], calls = [Query, Commit]\<rparr>"
  from find_SomeD [OF assms] have P: "?P acct" ..
  have first: "delete_account (SessionLocal rs) uid aid None = (Inr (), ?db1)"
    by (simp add: delete_account_result [OF assms])
  have found: "find ?P ?rs1 = Some ?c"
    using assms P by (intro find_update_row [where acct = acct]) auto
  have "delete_account (SessionLocal ?rs1) uid aid None =
      (Inr (), \<lparr>rows = update_row (?c\<lparr>status := ''closed''\<rparr>) ?rs1, new = [], dirty = [],
                calls = [Query, Commit]\<rparr>)"
    by (simp add: delete_account_result [OF found])
  then have second: "delete_account (SessionLocal ?rs1) uid aid None = (Inr (), ?db1)"
    by (simp add: update_row_twice)
  have get: "fst (get_account_by_id (SessionLocal ?rs1) uid aid) = Inr ?c"
    by (simp add: get_account_by_id_def query_first_some [OF found])
  have listed: "?c \<notin> set (fst (get_user_accounts (SessionLocal ?rs1) uid))"
    by (simp add: get_user_accounts_def query_all_def)
  from first second found get listed show ?thesis
    by (intro exI [of _ ?db1] conjI) (simp_all add: update_row_ids)
qed

theorem delete_account_idempotent_witness:
  "\<exists>db1 db2.
      delete_account (SessionLocal
        [\<lparr>id_pk = Some 1, user_id = 1, account_type = ''checking'', balance = 25,
           status = ''active'', nickname = None\<rparr>]) 1 1 None = (Inr (), db1) \<and>
      rows db1 = [\<lparr>id_pk = Some 1, user_id = 1, account_type = ''checking'', balance = 25,
           status = ''closed'', nickname = None\<rparr>] \<and>
      delete_account (SessionLocal (rows db1)) 1 1 None = (Inr (), db2) \<and>
      rows db2 = rows db1 \<and>
      fst (get_account_by_id (SessionLocal (rows db2)) 1 1) =
        Inr \<lparr>id_pk = Some 1, user_id = 1, account_type = ''checking'', balance = 25,
           status = ''closed'', nickname = None\<rparr>"
proof -
  let ?r = "\<lparr>id_pk = Some 1, user_id = 1, account_type = ''checking'', balance = 25,
           status = ''active'', nickname = None\<rparr>"
  have "find (\<lambda>r. id_pk r = Some 1 \<and> user_id r = 1) [?r] = Some ?r"
    by simp
  from delete_account_idempotent [OF this] obtain db1 db2 where
    d1: "delete_account (SessionLocal [?r]) 1 1 None = (Inr (), db1)" and
    d2: "delete_account (SessionLocal (rows db1)) 1 1 None = (Inr (), db2)" and
    same: "rows db2 = rows db1" and
    get: "fst (get_account_by_id (SessionLocal (rows db2)) 1 1) = Inr (?r\<lparr>status := ''closed''\<rparr>)"
    by blast
  from d1 have "rows db1 = [?r\<lparr>status := ''closed''\<rparr>]"
    by (auto simp: delete_account_def query_first_def SessionLocal_def assign_def commit_def
        flush_error_def flush_def update_row_def)
  with d1 d2 same get show ?thesis
    by (intro exI [of _ db1] exI [of _ db2]) simp
qed

section \<open>Store errors\<close>



section \<open>Who closes an account\<close>

lemma closed_ids_update_row:
  assumes "acct \<in> set rs" and "id_pk a = id_pk acct"
    and "status a = ''closed'' \<longrightarrow> status acct = ''closed''"
  shows "closed_ids (update_row a rs) \<subseteq> closed_ids rs"
proof
  fix k assume "k \<in> closed_ids (update_row a rs)"
  then obtain r where r: "r \<in> set rs"
    and k: "k = id_pk (if id_pk r = id_pk a then a else r)"
    and c: "status (if id_pk r = id_pk a then a else r) = ''closed''"
    by (auto simp: closed_ids_def update_row_def)
  show "k \<in> closed_ids rs"
  proof (cases "id_pk r = id_pk a")
    case True
    with k c assms show ?thesis
      by (auto simp: closed_ids_def intro!: image_eqI [where x = acct])
  next
    case False
    with k c r show ?thesis
      by (auto simp: closed_ids_def)
  qed
qed

lemma closed_ids_append_active:
  assumes "status a \<noteq> ''closed''"
  shows "closed_ids (rs @ [a]) = closed_ids rs"
  using assms by (auto simp: closed_ids_def)

lemma create_account_closed_ids:
  "closed_ids (rows (snd (create_account (SessionLocal rs) uid data outcome))) \<subseteq> closed_ids rs"
  using create_account_rows [of rs uid data outcome]
  by (auto simp: closed_ids_append_active)

lemma update_account_closed_ids:
  assumes "update_status data \<noteq> Some ''closed''"
  shows "closed_ids (rows (snd (update_account (SessionLocal rs) uid aid data outcome))) \<subseteq> closed_ids rs"
proof (cases "find (\<lambda>r. id_pk r = Some aid \<and> user_id r = uid) rs")
  case None
  then show ?thesis by (simp add: update_account_absent)
next
  case (Some acct)
  from find_SomeD [OF Some] have mem: "acct \<in> set rs" ..
  from update_account_rows [OF Some, of data outcome] show ?thesis
  proof
    assume "rows (snd (update_account (SessionLocal rs) uid aid data outcome)) = rs"
    then show ?thesis by simp
  next
    assume "\<exists>n s. (s = status acct \<or> update_status data = Some s) \<and>
            rows (snd (update_account (SessionLocal rs) uid aid data outcome)) =
              update_row (acct\<lparr>nickname := n, status := s\<rparr>) rs"
    then obtain n s where s: "s = status acct \<or> update_status data = Some s"
      and rws: "rows (snd (update_account (SessionLocal rs) uid aid data outcome)) =
              update_row (acct\<lparr>nickname := n, status := s\<rparr>) rs"
      by blast
    from s assms have "status (acct\<lparr>nickname := n, status := s\<rparr>) = ''closed'' \<longrightarrow>
        status acct = ''closed''"
      by auto
    with mem show ?thesis
      unfolding rws by (intro closed_ids_update_row [where acct = acct]) simp_all
  qed
qed

lemma handle_closed_ids:
  assumes "\<not> closing req"
  shows "closed_ids (handle rs req) \<subseteq> closed_ids rs"
proof (cases req)
  case (CreateAccount uid data outcome)
  then show ?thesis by (simp add: create_account_closed_ids)
next
  case (GetUserAccounts uid)
  then show ?thesis by (simp add: get_user_accounts_def query_all_def SessionLocal_def)
next
  case (GetAccountById uid aid)
  then show ?thesis
    by (simp add: get_account_by_id_def query_first_def SessionLocal_def split: option.splits)
next
  case (UpdateAccount uid aid data outcome)
  with assms show ?thesis by (simp add: update_account_closed_ids)
next
  case (DeleteAccount uid aid outcome)
  with assms show ?thesis by simp
qed

text \<open>
  C8, as stated, fails: with no \<^verbatim>\<open>DELETE\<close> at all, an update that carries status
  \<^verbatim>\<open>closed\<close> closes the account just created.
\<close>

theorem update_account_closes_counterexample:
  "run [] [CreateAccount 1
             \<lparr>create_account_type = ''checking'', create_nickname = None, initial_deposit = 25\<rparr> None,
           UpdateAccount 1 1 \<lparr>update_nickname = None, update_status = Some ''closed''\<rparr> None] =
     [\<lparr>id_pk = Some 1, user_id = 1, account_type = ''checking'', balance = 25,
        status = ''closed'', nickname = None\<rparr>]"
  by code_simp

text \<open>
  C8, amended. Over any sequence of requests none of which is a \<^verbatim>\<open>DELETE\<close> or an update
  carrying status \<^verbatim>\<open>closed\<close>, no account becomes closed: every key that is closed in the
  final table was closed in the initial one.
\<close>

theorem run_closed_ids:
  assumes "\<forall>req\<in>set reqs. \<not> closing req"
  shows "closed_ids (run rs reqs) \<subseteq> closed_ids rs"
  using assms unfolding run_def
proof (induction reqs arbitrary: rs)
  case Nil
  then show ?case by simp
next
  case (Cons req reqs)
  then have "closed_ids (foldl handle (handle rs req) reqs) \<subseteq> closed_ids (handle rs req)"
    by simp
  also from Cons.prems have "closed_ids (handle rs req) \<subseteq> closed_ids rs"
    by (simp add: handle_closed_ids)
  finally show ?case by simp
qed

theorem run_closed_ids_witness:
  "filter closing
     [UpdateAccount 1 1 \<lparr>update_nickname = Some ''rent'', update_status = Some ''frozen''\<rparr> None,
       CreateAccount 1
         \<lparr>create_account_type = ''savings'', create_nickname = None, initial_deposit = 100\<rparr> None,
       GetUserAccounts 1, GetAccountById 1 2] = [] \<and>
   run [\<lparr>id_pk = Some 1, user_id = 1, account_type = ''checking'', balance = 25,
        status = ''active'', nickname = None\<rparr>]
     [UpdateAccount 1 1 \<lparr>update_nickname = Some ''rent'', update_status = Some ''frozen''\<rparr> None,
       CreateAccount 1
         \<lparr>create_account_type = ''savings'', create_nickname = None, initial_deposit = 100\<rparr> None,
       GetUserAccounts 1, GetAccountById 1 2] =
     [\<lparr>id_pk = Some 1, user_id = 1, account_type = ''checking'', balance = 25,
        status = ''frozen'', nickname = Some ''rent''\<rparr>,
      \<lparr>id_pk = Some 2, user_id = 1, account_type = ''savings'', balance = 100,
        status = ''active'', nickname = None\<rparr>] \<and>
   closed_ids (run [\<lparr>id_pk = Some 1, user_id = 1, account_type = ''checking'', balance = 25,
        status = ''active'', nickname = None\<rparr>]
     [UpdateAccount 1 1 \<lparr>update_nickname = Some ''rent'', update_status = Some ''frozen''\<rparr> None,
       CreateAccount 1
         \<lparr>create_account_type = ''savings'', create_nickname = None, initial_deposit = 100\<rparr> None,
       GetUserAccounts 1, GetAccountById 1 2]) = {}"
proof -
  let ?rs = "[\<lparr>id_pk = Some 1, user_id = 1, account_type = ''checking'', balance = 25,
        status = ''active'', nickname = None\<rparr>]"
  let ?reqs = "[UpdateAccount 1 1 \<lparr>update_nickname = Some ''rent'', update_status = Some ''frozen''\<rparr> None,
       CreateAccount 1
         \<lparr>create_account_type = ''savings'', create_nickname = None, initial_deposit = 100\<rparr> None,
       GetUserAccounts 1, GetAccountById 1 2]"
  have h: "\<forall>req\<in>set ?reqs. \<not> closing req"
    by simp
  have e: "closed_ids ?rs = {}"
    by (simp add: closed_ids_def)
  have r: "run ?rs ?reqs =
     [\<lparr>id_pk = Some 1, user_id = 1, account_type = ''checking'', balance = 25,
        status = ''frozen'', nickname = Some ''rent''\<rparr>,
      \<lparr>id_pk = Some 2, user_id = 1, account_type = ''savings'', balance = 100,
        status = ''active'', nickname = None\<rparr>]"
    by code_simp
  from run_closed_ids [OF h, of ?rs] e have "closed_ids (run ?rs ?reqs) = {}"
    by simp
  moreover have "filter closing ?reqs = []"
    by simp
  ultimately show ?thesis using r
    by (intro conjI)
qed

end
